theory Spec2Isabelle
  imports Main "HOL-Library.AList"
begin

section \<open>Data model of lib/index.js\<close>

text \<open>
  A Vinyl file carries \<open>contents\<close> that are null, a Buffer or a Stream
  (\<open>isNull\<close>, \<open>isBuffer\<close>, \<open>isStream\<close>), its paths, and the \<open>s3\<close> object that
  the plugin attaches. A Buffer is its list of bytes.
\<close>

datatype contents = Null | Buffer string | Stream

text \<open>Header values are strings or numbers (\<open>Content-Length\<close> is a number).\<close>

datatype hval = HStr string | HNum nat

text \<open>
  A header object is enumerated with \<open>for ... in\<close>, in insertion order, and an
  assignment to a key already present keeps the key's position: an association list
  updated with \<open>AList.update\<close>. Reading a key is \<open>map_of\<close>.
\<close>

type_synonym headers = "(string \<times> hval) list"

text \<open>
  \<open>new Date(t)\<close> for a timestamp, \<open>new Date(undefined)\<close> is the invalid date.
\<close>

datatype jsdate = Date nat | InvalidDate

record s3info =
  s3_path :: string
  s3_headers :: headers
  s3_state :: "string option"
  s3_etag :: "string option"
  s3_date :: "jsdate option"

record vinyl =
  contents :: contents
  relative :: string
  path :: string
  unzipPath :: "string option"
  s3 :: "s3info option"

text \<open>JavaScript truthiness of the values the code tests.\<close>

fun truthy :: "hval option \<Rightarrow> bool" where
  "truthy None = False"
| "truthy (Some (HStr s)) = (s \<noteq> [])"
| "truthy (Some (HNum n)) = (n \<noteq> 0)"

fun truthy_str :: "string option \<Rightarrow> bool" where
  "truthy_str None = False"
| "truthy_str (Some s) = (s \<noteq> [])"

text \<open>\<open>a || b\<close> on an optional string \<open>a\<close>.\<close>

fun or_str :: "string option \<Rightarrow> string \<Rightarrow> string" where
  "or_str None d = d"
| "or_str (Some s) d = (if s \<noteq> [] then s else d)"

subsection \<open>The remote store and the libraries\<close>

text \<open>
  An error of the AWS client: \<open>err.statusCode\<close> is a number, or undefined for an
  error that is not an HTTP response.
\<close>

datatype aws_error = AwsError (statusCode: "nat option")

record head_data =
  ETag :: "string option"
  LastModified :: "nat option"

text \<open>
  The client calls back with \<open>(err, null)\<close> or with \<open>(null, data)\<close>.
\<close>

datatype head_response = HeadErr aws_error | HeadOk head_data

datatype pval = PHeader hval | PKey string | PBody contents

type_synonym params = "(string \<times> pval) list"

record object_id =
  Key :: string

record delete_spec =
  Objects :: "object_id list"

record delete_request =
  Delete :: delete_spec

datatype call =
    HeadObject string
  | PutObject params
  | ListObjects string
  | DeleteObjects "delete_request option"

text \<open>
  What the code calls and does not define: the \<open>crypto\<close>, \<open>mime-types\<close> and
  \<open>pascal-case\<close> libraries, the clock, and the answers of the S3 client. They are
  parameters of the model.
\<close>

record env =
  md5_hex :: "string \<Rightarrow> string"
  mime_lookup :: "string \<Rightarrow> string option"
  mime_charset :: "string \<Rightarrow> string option"
  pascalCase :: "string \<Rightarrow> string"
  now :: nat
  headObject :: "string \<Rightarrow> head_response"
  putObject :: "params \<Rightarrow> aws_error option"
  listObjects :: "string \<Rightarrow> string list"
  deleteObjects :: "delete_request option \<Rightarrow> aws_error option"

datatype error =
    PluginError string
  | AwsFailure aws_error
  | TypeError
  | Error string

text \<open>
  What a transform does with its file: \<open>cb()\<close> (nothing is pushed), \<open>cb(null, file)\<close>
  (the file is pushed downstream), \<open>cb(err)\<close>, or an \<open>'error'\<close> event followed by
  \<open>cb()\<close>.
\<close>

datatype outcome = Done | Push vinyl | Fail error | EmitErrorDone error

fun cb :: "aws_error option \<Rightarrow> vinyl \<Rightarrow> outcome" where
  "cb None file = Push file"
| "cb (Some e) file = Fail (AwsFailure e)"

text \<open>The files a transform pushes downstream for one input file.\<close>

fun pushed :: "outcome \<Rightarrow> vinyl list" where
  "pushed (Push file) = [file]"
| "pushed Done = []"
| "pushed (Fail e) = []"
| "pushed (EmitErrorDone e) = []"

section \<open>Helpers\<close>

definition md5Hash :: "env \<Rightarrow> string \<Rightarrow> string" where
  "md5Hash env buf = md5_hex env buf"

definition toLowerCase :: "string \<Rightarrow> string" where
  "toLowerCase s =
     map (\<lambda>c. let n = (of_char c :: nat) in
               if 65 \<le> n \<and> n \<le> 90 then char_of (n + 32) else c) s"

definition getContentType :: "env \<Rightarrow> vinyl \<Rightarrow> string" where
  "getContentType env file =
     (let mimeType = or_str (mime_lookup env (or_str (unzipPath file) (path file)))
                       ''application/octet-stream'';
          charset = mime_charset env mimeType
      in if truthy_str charset
         then mimeType @ ''; charset='' @ toLowerCase (or_str charset [])
         else mimeType)"

definition aws_param_name :: "env \<Rightarrow> string \<Rightarrow> string" where
  "aws_param_name env header =
     (if header = ''x-amz-acl'' then ''ACL''
      else if header = ''Content-MD5'' then ''ContentMD5''
      else pascalCase env header)"

definition toAwsParams :: "env \<Rightarrow> vinyl \<Rightarrow> s3info \<Rightarrow> params" where
  "toAwsParams env file s =
     AList.update ''Body'' (PBody (contents file))
       (AList.update ''Key'' (PKey (s3_path s))
          (fold (\<lambda>hv ps. AList.update (aws_param_name env (fst hv)) (PHeader (snd hv)) ps)
             (s3_headers s) []))"

text \<open>
  \<open>initFile\<close>: a file without \<open>s3\<close> gets one, with no headers and the relative path
  with every backslash replaced by a slash.
\<close>

definition initFile_s3 :: "vinyl \<Rightarrow> s3info" where
  "initFile_s3 file =
     (case s3 file of
        None \<Rightarrow>
          \<lparr>s3_path = map (\<lambda>c. if c = CHR 0x5C then CHR ''/'' else c) (relative file),
           s3_headers = [], s3_state = None, s3_etag = None, s3_date = None\<rparr>
      | Some s \<Rightarrow> s)"

definition initFile :: "vinyl \<Rightarrow> vinyl" where
  "initFile file = file\<lparr>s3 := Some (initFile_s3 file)\<rparr>"

section \<open>Publisher.prototype.publish\<close>

record options =
  force :: bool
  noAcl :: bool
  simulate :: bool
  createOnly :: bool
  compress :: "(string \<times> string) list option"

text \<open>\<open>if (!options) options = { force: false }\<close>\<close>

definition init_options :: "options option \<Rightarrow> options" where
  "init_options opts =
     (case opts of
        None \<Rightarrow> \<lparr>force = False, noAcl = False, simulate = False, createOnly = False,
                  compress = None\<rparr>
      | Some ops \<Rightarrow> ops)"

text \<open>
  \<open>if (!headers) headers = {}\<close>, then the default \<open>x-amz-acl\<close>.
\<close>

definition init_headers :: "headers option \<Rightarrow> options \<Rightarrow> headers" where
  "init_headers hdrs options =
     (let hs = (case hdrs of None \<Rightarrow> [] | Some h \<Rightarrow> h)
      in if \<not> truthy (map_of hs ''x-amz-acl'') \<and> \<not> noAcl options
         then AList.update ''x-amz-acl'' (HStr ''public-read'') hs
         else hs)"

definition endsWith :: "string \<Rightarrow> string \<Rightarrow> bool" where
  "endsWith str suf =
     (length suf \<le> length str \<and> drop (length str - length suf) str = suf)"

text \<open>One round of \<open>Object.keys(options.compress).forEach\<close>.\<close>

definition compress_step :: "string \<times> string \<Rightarrow> vinyl \<times> s3info \<Rightarrow> vinyl \<times> s3info" where
  "compress_step kv fs =
     (let key = fst kv; file = fst fs; s = snd fs
      in if \<not> truthy_str (unzipPath file) \<and> endsWith (path file) key
         then (file\<lparr>unzipPath := Some (take (length (path file) - length key) (path file))\<rparr>,
               if \<not> truthy (map_of (s3_headers s) ''Content-Encoding'')
               then s\<lparr>s3_headers := AList.update ''Content-Encoding'' (HStr (snd kv)) (s3_headers s)\<rparr>
               else s)
         else (file, s))"

text \<open>Lines 337 to 348: the content type, with the encoding found from the suffix.\<close>

definition add_content_type :: "env \<Rightarrow> options \<Rightarrow> vinyl \<times> s3info \<Rightarrow> vinyl \<times> s3info" where
  "add_content_type env options fs =
     (if \<not> truthy (map_of (s3_headers (snd fs)) ''Content-Type'')
      then (let fs1 = (case compress options of
                         None \<Rightarrow> fs
                       | Some cs \<Rightarrow> fold compress_step cs fs)
            in (fst fs1,
                (snd fs1)\<lparr>s3_headers :=
                   AList.update ''Content-Type'' (HStr (getContentType env (fst fs1)))
                     (s3_headers (snd fs1))\<rparr>))
      else fs)"

text \<open>Lines 350 to 352.\<close>

definition add_content_length :: "string \<Rightarrow> s3info \<Rightarrow> s3info" where
  "add_content_length buf s =
     (if \<not> truthy (map_of (s3_headers s) ''Content-Length'')
      then s\<lparr>s3_headers := AList.update ''Content-Length'' (HNum (length buf)) (s3_headers s)\<rparr>
      else s)"

text \<open>Line 355: \<open>for (header in headers) file.s3.headers[header] = headers[header]\<close>.\<close>

definition add_extra_headers :: "headers \<Rightarrow> s3info \<Rightarrow> s3info" where
  "add_extra_headers hdrs s =
     s\<lparr>s3_headers := fold (\<lambda>hv hs. AList.update (fst hv) (snd hv) hs) hdrs (s3_headers s)\<rparr>"

definition publish_headers ::
  "env \<Rightarrow> headers \<Rightarrow> options \<Rightarrow> string \<Rightarrow> vinyl \<times> s3info \<Rightarrow> vinyl \<times> s3info" where
  "publish_headers env hdrs options buf fs =
     (let fs1 = add_content_type env options fs
      in (fst fs1, add_extra_headers hdrs (add_content_length buf (snd fs1))))"

text \<open>\<open>[403, 404].indexOf(err.statusCode) < 0\<close> is the negation of this.\<close>

definition ignored_status :: "aws_error \<Rightarrow> bool" where
  "ignored_status e = (statusCode e = Some 403 \<or> statusCode e = Some 404)"

definition new_Date :: "nat option \<Rightarrow> jsdate" where
  "new_Date v = (case v of None \<Rightarrow> InvalidDate | Some t \<Rightarrow> Date t)"

text \<open>
  The callback of \<open>headObject\<close>, lines 360 to 390, with the call of \<open>putObject\<close> and
  its callback. The result is the outcome for the file and the calls made.
\<close>

definition head_callback ::
  "env \<Rightarrow> options \<Rightarrow> string \<Rightarrow> vinyl \<Rightarrow> s3info \<Rightarrow> head_response \<Rightarrow> outcome \<times> call list" where
  "head_callback env options etag file s r =
     (let err = (case r of HeadErr e \<Rightarrow> Some e | HeadOk d \<Rightarrow> None);
          res0 = (case r of HeadErr e \<Rightarrow> None | HeadOk d \<Rightarrow> Some d)
      in case (case err of Some e \<Rightarrow> if ignored_status e then None else Some e | None \<Rightarrow> None) of
           Some e \<Rightarrow> (Fail (AwsFailure e), [])
         | None \<Rightarrow>
            (let res = (case res0 of None \<Rightarrow> \<lparr>ETag = None, LastModified = None\<rparr> | Some d \<Rightarrow> d);
                 noUpdate = (createOnly options \<and> truthy_str (ETag res));
                 noChange = (\<not> force options \<and> ETag res = Some etag)
             in if noUpdate \<or> noChange
                then (cb err (file\<lparr>s3 := Some (s\<lparr>s3_state := Some ''skip'',
                                                    s3_etag := Some etag,
                                                    s3_date := Some (new_Date (LastModified res))\<rparr>)\<rparr>),
                      [])
                else (let s1 = s\<lparr>s3_state :=
                                   Some (if truthy_str (ETag res) then ''update'' else ''create'')\<rparr>;
                          ps = toAwsParams env file s1
                      in (case putObject env ps of
                            Some e \<Rightarrow> Fail (AwsFailure e)
                          | None \<Rightarrow> Push (file\<lparr>s3 := Some (s1\<lparr>s3_date := Some (Date (now env)),
                                                                 s3_etag := Some etag\<rparr>)\<rparr>),
                          [PutObject ps]))))"

text \<open>
  The transform of \<open>publish\<close> for one file, with the publisher's cache \<open>c\<close>, the
  headers and the options as \<open>publish\<close> has initialised them.
  A cache is the set of own properties of the object \<open>_cache\<close>; reading a key gives
  a string only from an own property.
\<close>

type_synonym cache = "string \<rightharpoonup> string"

text \<open>Line 326: the MD5 digest in hexadecimal, between two double quotes.\<close>

definition fingerprint :: "env \<Rightarrow> string \<Rightarrow> string" where
  "fingerprint env buf = [CHR 0x22] @ md5Hash env buf @ [CHR 0x22]"

definition publish_file ::
  "env \<Rightarrow> cache \<Rightarrow> headers \<Rightarrow> options \<Rightarrow> vinyl \<Rightarrow> outcome \<times> call list" where
  "publish_file env c hdrs options file0 =
     (case contents file0 of
        Null \<Rightarrow> (Done, [])
      | Stream \<Rightarrow> (EmitErrorDone (PluginError ''Stream content is not supported''), [])
      | Buffer buf \<Rightarrow>
         (let file = initFile file0;
              s = initFile_s3 file0;
              etag = fingerprint env buf
          in if s3_state s = Some ''delete'' then (Push file, [])
             else if \<not> force options \<and> c (s3_path s) = Some etag
             then (Push (file\<lparr>s3 := Some (s\<lparr>s3_state := Some ''cache''\<rparr>)\<rparr>), [])
             else (let fs = publish_headers env hdrs options buf (file, s);
                       file1 = fst fs;
                       s1 = snd fs
                   in if simulate options then (Push (file1\<lparr>s3 := Some s1\<rparr>), [])
                      else (let r = head_callback env options etag file1 s1
                                      (headObject env (s3_path s1))
                            in (fst r, HeadObject (s3_path s1) # snd r)))))"

definition publish ::
  "env \<Rightarrow> cache \<Rightarrow> headers option \<Rightarrow> options option \<Rightarrow> vinyl \<Rightarrow> outcome \<times> call list" where
  "publish env c hdrs opts file =
     publish_file env c (init_headers hdrs (init_options opts)) (init_options opts) file"

section \<open>Plain objects used as dictionaries\<close>

text \<open>
  \<open>_cache\<close> and \<open>newFiles\<close> are ordinary objects (\<open>{}\<close>, or what \<open>JSON.parse\<close>
  returns), so they inherit from \<open>Object.prototype\<close>. The model keeps the own
  properties. Reading \<open>obj[key]\<close> for a key that is not an own property gives the
  inherited member when \<open>key\<close> is one of the names below (a function or an object:
  truthy, and never equal to a string), and undefined otherwise. Assigning a string or
  a boolean to \<open>obj['__proto__']\<close>, when the object has no own property of that name,
  reaches the setter of \<open>Object.prototype\<close>, which ignores a value that is not an
  object: nothing is stored.
\<close>

definition object_prototype_names :: "string list" where
  "object_prototype_names =
     [''constructor'', ''__defineGetter__'', ''__defineSetter__'', ''hasOwnProperty'',
      ''__lookupGetter__'', ''__lookupSetter__'', ''isPrototypeOf'',
      ''propertyIsEnumerable'', ''toString'', ''valueOf'', ''__proto__'',
      ''toLocaleString'']"

definition js_assign :: "(string \<rightharpoonup> 'v) \<Rightarrow> string \<Rightarrow> 'v \<Rightarrow> (string \<rightharpoonup> 'v)" where
  "js_assign obj k v = (if k = ''__proto__'' \<and> obj k = None then obj else obj(k \<mapsto> v))"

definition js_delete :: "(string \<rightharpoonup> 'v) \<Rightarrow> string \<Rightarrow> (string \<rightharpoonup> 'v)" where
  "js_delete obj k = obj(k := None)"

text \<open>The truthiness of \<open>obj[key]\<close> for an object whose own values are all \<open>true\<close>.\<close>

definition js_truthy_member :: "(string \<rightharpoonup> unit) \<Rightarrow> string \<Rightarrow> bool" where
  "js_truthy_member obj k = (obj k \<noteq> None \<or> k \<in> set object_prototype_names)"

section \<open>The Publisher and its cache file\<close>






section \<open>Publisher.prototype.cache\<close>

text \<open>
  The state of the cache stream: the publisher's \<open>_cache\<close>, the \<open>counter\<close>, and the
  writes of the cache file so far, each with the mapping it stored.
\<close>

record cache_state =
  cs_cache :: cache
  counter :: nat
  writes :: "cache list"

definition saveCache :: "cache_state \<Rightarrow> cache_state" where
  "saveCache st = st\<lparr>writes := writes st @ [cs_cache st]\<rparr>"

definition cache_transform :: "cache_state \<Rightarrow> vinyl \<Rightarrow> cache_state \<times> outcome" where
  "cache_transform st file =
     (case s3 file of
        None \<Rightarrow> (st, Push file)
      | Some s \<Rightarrow>
          if s3_path s = [] then (st, Push file)
          else if s3_state s = Some ''cache'' then (st, Push file)
          else (let c1 = (if s3_state s = Some ''delete'' then js_delete (cs_cache st) (s3_path s)
                          else if truthy_str (s3_etag s)
                          then js_assign (cs_cache st) (s3_path s) (or_str (s3_etag s) [])
                          else cs_cache st);
                    st1 = st\<lparr>cs_cache := c1, counter := counter st + 1\<rparr>
                in (if counter st1 mod 10 \<noteq> 0 then saveCache st1 else st1, Push file)))"

text \<open>The stream over the files of a run, then the \<open>finish\<close> event.\<close>

definition cache_files :: "cache_state \<Rightarrow> vinyl list \<Rightarrow> cache_state" where
  "cache_files st files = fold (\<lambda>file st. fst (cache_transform st file)) files st"

definition cache_stream :: "cache_state \<Rightarrow> vinyl list \<Rightarrow> cache_state" where
  "cache_stream st files = saveCache (cache_files st files)"

section \<open>Publisher.prototype.sync\<close>

text \<open>
  A whitelist entry: a regular expression, taken as the predicate its \<open>test\<close>
  computes (an expression without the \<open>g\<close> and \<open>y\<close> flags, whose \<open>test\<close> keeps no
  state), a string, or any other value.
\<close>

datatype wl_entry = RegExp "string \<Rightarrow> bool" | WString string | WOther

fun fileShouldBeDeleted :: "string \<Rightarrow> wl_entry list \<Rightarrow> error + bool" where
  "fileShouldBeDeleted key [] = Inr True"
| "fileShouldBeDeleted key (RegExp test # whitelist) =
     (if test key then Inr False else fileShouldBeDeleted key whitelist)"
| "fileShouldBeDeleted key (WString expr # whitelist) =
     (if expr = key then Inr False else fileShouldBeDeleted key whitelist)"
| "fileShouldBeDeleted key (WOther # whitelist) =
     Inl (Error ''whitelist param can only contain regular expressions or strings'')"

definition key_object :: "string \<Rightarrow> object_id" where
  "key_object k = \<lparr>Key = k\<rparr>"

definition buildDeleteMultiple :: "string list option \<Rightarrow> delete_request option" where
  "buildDeleteMultiple keys =
     (case keys of
        None \<Rightarrow> None
      | Some ks \<Rightarrow> if length ks = 0 then None else Some \<lparr>Delete = \<lparr>Objects = map key_object ks\<rparr>\<rparr>)"

text \<open>\<open>stream._transform\<close>: the key is recorded and the file pushed.\<close>

definition sync_transform ::
  "(string \<rightharpoonup> unit) \<Rightarrow> vinyl \<Rightarrow> error + (string \<rightharpoonup> unit) \<times> outcome" where
  "sync_transform newFiles file =
     (case s3 file of
        None \<Rightarrow> Inl TypeError
      | Some s \<Rightarrow> Inr (js_assign newFiles (s3_path s) (), Push file))"

fun sync_files :: "(string \<rightharpoonup> unit) \<Rightarrow> vinyl list \<Rightarrow> error + (string \<rightharpoonup> unit)" where
  "sync_files newFiles [] = Inr newFiles"
| "sync_files newFiles (file # files) =
     (case sync_transform newFiles file of
        Inl e \<Rightarrow> Inl e
      | Inr r \<Rightarrow> sync_files (fst r) files)"

text \<open>
  The \<open>data\<close> handler of the lister over the keys of the listing, in order: the keys
  pushed to \<open>toDelete\<close>, or the exception of \<open>fileShouldBeDeleted\<close>.
\<close>

fun lister_data :: "(string \<rightharpoonup> unit) \<Rightarrow> wl_entry list \<Rightarrow> string list \<Rightarrow> error + string list" where
  "lister_data newFiles whitelist [] = Inr []"
| "lister_data newFiles whitelist (key # keys) =
     (if js_truthy_member newFiles key then lister_data newFiles whitelist keys
      else (case fileShouldBeDeleted key whitelist of
              Inl e \<Rightarrow> Inl e
            | Inr shouldDelete \<Rightarrow>
                if \<not> shouldDelete then lister_data newFiles whitelist keys
                else (case lister_data newFiles whitelist keys of
                        Inl e \<Rightarrow> Inl e
                      | Inr toDelete \<Rightarrow> Inr (key # toDelete))))"

text \<open>The synthetic file of a deletion: \<open>new Vinyl({})\<close> with its \<open>s3\<close>.\<close>

definition deleteFile :: "string \<Rightarrow> vinyl" where
  "deleteFile key =
     \<lparr>contents = Null, relative = [], path = [], unzipPath = None,
      s3 = Some \<lparr>s3_path = key, s3_headers = [], s3_state = Some ''delete'',
                 s3_etag = None, s3_date = None\<rparr>\<rparr>"

record flush_result =
  fl_pushed :: "vinyl list"
  toDelete :: "string list"
  fl_calls :: "call list"
  fl_cb :: "aws_error option"

text \<open>
  The \<open>end\<close> handler of the lister: \<open>cb()\<close> when there is nothing to delete, else
  one \<open>deleteObjects\<close> whose callback is \<open>cb\<close>.
\<close>

definition lister_end :: "env \<Rightarrow> string list \<Rightarrow> call list \<times> aws_error option" where
  "lister_end env toDel =
     (if length toDel = 0 then ([], None)
      else ([DeleteObjects (buildDeleteMultiple (Some toDel))],
            deleteObjects env (buildDeleteMultiple (Some toDel))))"

definition sync_flush ::
  "env \<Rightarrow> (string \<rightharpoonup> unit) \<Rightarrow> string option \<Rightarrow> wl_entry list option \<Rightarrow> error + flush_result" where
  "sync_flush env newFiles prefix whitelistedFiles =
     (let pre = or_str prefix [];
          whitelist = (case whitelistedFiles of None \<Rightarrow> [] | Some w \<Rightarrow> w)
      in case lister_data newFiles whitelist (listObjects env pre) of
           Inl e \<Rightarrow> Inl e
         | Inr toDel \<Rightarrow>
             Inr \<lparr>fl_pushed = map deleteFile toDel, toDelete = toDel,
                  fl_calls = ListObjects pre # fst (lister_end env toDel),
                  fl_cb = snd (lister_end env toDel)\<rparr>)"

text \<open>A whole run of \<open>sync\<close>: the files of the stream, then the flush.\<close>

definition sync ::
  "env \<Rightarrow> string option \<Rightarrow> wl_entry list option \<Rightarrow> vinyl list \<Rightarrow> error + flush_result" where
  "sync env prefix whitelistedFiles files =
     (case sync_files Map.empty files of
        Inl e \<Rightarrow> Inl e
      | Inr newFiles \<Rightarrow> sync_flush env newFiles prefix whitelistedFiles)"

section \<open>Vocabulary of the statements\<close>

text \<open>
  A key matches the whitelist when it equals one of its strings or one of its
  regular expressions accepts it.
\<close>

definition wl_matches :: "wl_entry \<Rightarrow> string \<Rightarrow> bool" where
  "wl_matches e key =
     (case e of RegExp test \<Rightarrow> test key | WString s \<Rightarrow> s = key | WOther \<Rightarrow> False)"

definition whitelisted :: "wl_entry list \<Rightarrow> string \<Rightarrow> bool" where
  "whitelisted whitelist key = list_ex (\<lambda>e. wl_matches e key) whitelist"


section \<open>Example inputs\<close>

definition ex_env :: env where
  "ex_env =
     \<lparr>md5_hex = (\<lambda>buf. ''0cc175b9c0f1b6a8''),
      mime_lookup = (\<lambda>p. if endsWith p ''.txt'' then Some ''text/plain'' else None),
      mime_charset = (\<lambda>m. if m = ''text/plain'' then Some ''UTF-8'' else None),
      pascalCase = filter (\<lambda>ch. ch \<noteq> CHR ''-''), now = 7,
      headObject = (\<lambda>k. HeadErr (AwsError (Some 404))), putObject = (\<lambda>ps. None),
      listObjects = (\<lambda>p. [''a'', ''b'', ''c'', ''d'']), deleteObjects = (\<lambda>r. None)\<rparr>"



definition ex_options :: options where
  "ex_options =
     \<lparr>force = False, noAcl = False, simulate = False, createOnly = False, compress = None\<rparr>"

definition ex_file :: vinyl where
  "ex_file =
     \<lparr>contents = Buffer ''hi'', relative = ''a.txt'', path = ''/src/a.txt'',
      unzipPath = None, s3 = None\<rparr>"


definition ex_state :: cache_state where
  "ex_state = \<lparr>cs_cache = Map.empty, counter = 0, writes = []\<rparr>"

definition ex_headers :: headers where
  "ex_headers = [(''x-amz-acl'', HStr ''public-read'')]"

definition ex_s3 :: s3info where
  "ex_s3 =
     \<lparr>s3_path = ''a.txt'',
      s3_headers = [(''Content-Type'', HStr ''text/plain; charset=utf-8''),
                    (''Content-Length'', HNum 2), (''x-amz-acl'', HStr ''public-read'')],
      s3_state = None, s3_etag = None, s3_date = None\<rparr>"

definition ex_created :: vinyl where
  "ex_created =
     ex_file\<lparr>s3 := Some (ex_s3\<lparr>s3_state := Some ''create'',
                                s3_etag := Some (fingerprint ex_env ''hi''),
                                s3_date := Some (Date 7)\<rparr>)\<rparr>"

definition ex_cache_hit :: vinyl where
  "ex_cache_hit =
     ex_file\<lparr>s3 := Some \<lparr>s3_path = ''a.txt'', s3_headers = [], s3_state = Some ''cache'',
                          s3_etag = None, s3_date = None\<rparr>\<rparr>"

definition ex_params :: params where
  "ex_params =
     [(''ContentType'', PHeader (HStr ''text/plain; charset=utf-8'')),
      (''ContentLength'', PHeader (HNum 2)), (''ACL'', PHeader (HStr ''public-read'')),
      (''Key'', PKey ''a.txt''), (''Body'', PBody (Buffer ''hi''))]"

definition ex_skipped :: vinyl where
  "ex_skipped =
     ex_file\<lparr>s3 := Some (ex_s3\<lparr>s3_state := Some ''skip'',
                                s3_etag := Some (fingerprint ex_env ''hi''),
                                s3_date := Some (Date 3)\<rparr>)\<rparr>"

definition ex_null :: vinyl where
  "ex_null = ex_file\<lparr>contents := Null\<rparr>"

definition ex_stream :: vinyl where
  "ex_stream = ex_file\<lparr>contents := Stream\<rparr>"




definition cache_relevant :: "vinyl \<Rightarrow> bool" where
  "cache_relevant file =
     (case s3 file of None \<Rightarrow> False | Some s \<Rightarrow> s3_path s \<noteq> [] \<and> s3_state s \<noteq> Some ''cache'')"

section \<open>Evaluating the examples\<close>

lemma toLowerCase_UTF8: "toLowerCase ''UTF-8'' = ''utf-8''"
  by code_simp

lemmas ex_sync_defs =
  sync_flush_def ex_env_def js_truthy_member_def object_prototype_names_def
  lister_end_def buildDeleteMultiple_def

lemmas ex_publish_defs =
  publish_file_def head_callback_def publish_headers_def add_content_type_def
  add_content_length_def add_extra_headers_def getContentType_def toAwsParams_def
  aws_param_name_def initFile_def initFile_s3_def init_headers_def init_options_def
  fingerprint_def md5Hash_def ignored_status_def new_Date_def ex_env_def ex_options_def
  ex_file_def endsWith_def toLowerCase_UTF8 Let_def

lemmas ex_values = ex_headers_def ex_s3_def ex_created_def ex_cache_hit_def ex_params_def

lemma ex_init_headers: "init_headers None ex_options = ex_headers"
  by (simp add: init_headers_def ex_options_def ex_headers_def)

section \<open>Paths through publish\<close>

lemma compress_step_keeps:
  "s3_path (snd (compress_step kv fs)) = s3_path (snd fs)"
  "s3_state (snd (compress_step kv fs)) = s3_state (snd fs)"
  "s3_etag (snd (compress_step kv fs)) = s3_etag (snd fs)"
  "s3_date (snd (compress_step kv fs)) = s3_date (snd fs)"
  "contents (fst (compress_step kv fs)) = contents (fst fs)"
  "relative (fst (compress_step kv fs)) = relative (fst fs)"
  "path (fst (compress_step kv fs)) = path (fst fs)"
  by (simp_all add: compress_step_def Let_def)

lemma fold_compress_step_keeps:
  "s3_path (snd (fold compress_step cs fs)) = s3_path (snd fs)"
  "s3_state (snd (fold compress_step cs fs)) = s3_state (snd fs)"
  "s3_etag (snd (fold compress_step cs fs)) = s3_etag (snd fs)"
  "s3_date (snd (fold compress_step cs fs)) = s3_date (snd fs)"
  "contents (fst (fold compress_step cs fs)) = contents (fst fs)"
  "relative (fst (fold compress_step cs fs)) = relative (fst fs)"
  "path (fst (fold compress_step cs fs)) = path (fst fs)"
  by (induction cs arbitrary: fs; simp add: compress_step_keeps)+

lemma add_content_type_keeps:
  "s3_path (snd (add_content_type env ops fs)) = s3_path (snd fs)"
  "s3_state (snd (add_content_type env ops fs)) = s3_state (snd fs)"
  "s3_etag (snd (add_content_type env ops fs)) = s3_etag (snd fs)"
  "s3_date (snd (add_content_type env ops fs)) = s3_date (snd fs)"
  "contents (fst (add_content_type env ops fs)) = contents (fst fs)"
  "relative (fst (add_content_type env ops fs)) = relative (fst fs)"
  "path (fst (add_content_type env ops fs)) = path (fst fs)"
  by (simp_all add: add_content_type_def Let_def fold_compress_step_keeps split: option.splits)

lemma publish_headers_keeps:
  "s3_path (snd (publish_headers env h ops buf fs)) = s3_path (snd fs)"
  "s3_state (snd (publish_headers env h ops buf fs)) = s3_state (snd fs)"
  "s3_etag (snd (publish_headers env h ops buf fs)) = s3_etag (snd fs)"
  "s3_date (snd (publish_headers env h ops buf fs)) = s3_date (snd fs)"
  "contents (fst (publish_headers env h ops buf fs)) = contents (fst fs)"
  "relative (fst (publish_headers env h ops buf fs)) = relative (fst fs)"
  "path (fst (publish_headers env h ops buf fs)) = path (fst fs)"
  by (simp_all add: publish_headers_def Let_def add_content_type_keeps
      add_content_length_def add_extra_headers_def)

lemma publish_file_Null: "contents file = Null \<Longrightarrow> publish_file env c h ops file = (Done, [])"
  by (simp add: publish_file_def)

lemma publish_file_Stream:
  "contents file = Stream \<Longrightarrow>
   publish_file env c h ops file
     = (EmitErrorDone (PluginError ''Stream content is not supported''), [])"
  by (simp add: publish_file_def)

lemma publish_file_delete:
  "contents file = Buffer buf \<Longrightarrow> s3_state (initFile_s3 file) = Some ''delete'' \<Longrightarrow>
   publish_file env c h ops file = (Push (initFile file), [])"
  by (simp add: publish_file_def)

lemma publish_file_cache:
  "contents file = Buffer buf \<Longrightarrow> s3_state (initFile_s3 file) \<noteq> Some ''delete'' \<Longrightarrow>
   \<not> force ops \<Longrightarrow>
   c (s3_path (initFile_s3 file)) = Some (fingerprint env buf) \<Longrightarrow>
   publish_file env c h ops file
     = (Push (file\<lparr>s3 := Some ((initFile_s3 file)\<lparr>s3_state := Some ''cache''\<rparr>)\<rparr>), [])"
  by (simp add: publish_file_def initFile_def)

lemma publish_file_simulate:
  "contents file = Buffer buf \<Longrightarrow> s3_state (initFile_s3 file) \<noteq> Some ''delete'' \<Longrightarrow>
   force ops \<or> c (s3_path (initFile_s3 file)) \<noteq> Some (fingerprint env buf) \<Longrightarrow>
   simulate ops \<Longrightarrow>
   publish_file env c h ops file
     = (Push ((fst (publish_headers env h ops buf (initFile file, initFile_s3 file)))
               \<lparr>s3 := Some (snd (publish_headers env h ops buf (initFile file, initFile_s3 file)))\<rparr>), [])"
  by (auto simp add: publish_file_def Let_def)

lemma publish_file_remote:
  "contents file = Buffer buf \<Longrightarrow> s3_state (initFile_s3 file) \<noteq> Some ''delete'' \<Longrightarrow>
   force ops \<or> c (s3_path (initFile_s3 file)) \<noteq> Some (fingerprint env buf) \<Longrightarrow>
   \<not> simulate ops \<Longrightarrow>
   publish_file env c h ops file
     = (fst (head_callback env ops (fingerprint env buf)
               (fst (publish_headers env h ops buf (initFile file, initFile_s3 file)))
               (snd (publish_headers env h ops buf (initFile file, initFile_s3 file)))
               (headObject env (s3_path (initFile_s3 file)))),
        HeadObject (s3_path (initFile_s3 file)) #
        snd (head_callback env ops (fingerprint env buf)
               (fst (publish_headers env h ops buf (initFile file, initFile_s3 file)))
               (snd (publish_headers env h ops buf (initFile file, initFile_s3 file)))
               (headObject env (s3_path (initFile_s3 file)))))"
  by (auto simp add: publish_file_def Let_def publish_headers_keeps)


lemma head_callback_abort:
  "\<not> ignored_status e \<Longrightarrow>
   head_callback env ops etag file s (HeadErr e) = (Fail (AwsFailure e), [])"
  by (simp add: head_callback_def)

lemma head_callback_ignored:
  "ignored_status e \<Longrightarrow>
   head_callback env ops etag file s (HeadErr e) =
     (case putObject env (toAwsParams env file (s\<lparr>s3_state := Some ''create''\<rparr>)) of
        Some e' \<Rightarrow> Fail (AwsFailure e')
      | None \<Rightarrow> Push (file\<lparr>s3 := Some (s\<lparr>s3_state := Some ''create'',
                                           s3_date := Some (Date (now env)),
                                           s3_etag := Some etag\<rparr>)\<rparr>),
      [PutObject (toAwsParams env file (s\<lparr>s3_state := Some ''create''\<rparr>))])"
  by (simp add: head_callback_def Let_def)

lemma head_callback_skip:
  "(createOnly ops \<and> truthy_str (ETag d)) \<or> (\<not> force ops \<and> ETag d = Some etag) \<Longrightarrow>
   head_callback env ops etag file s (HeadOk d) =
     (Push (file\<lparr>s3 := Some (s\<lparr>s3_state := Some ''skip'', s3_etag := Some etag,
                                  s3_date := Some (new_Date (LastModified d))\<rparr>)\<rparr>), [])"
  by (auto simp add: head_callback_def Let_def)

lemma head_callback_put:
  "\<not> (createOnly ops \<and> truthy_str (ETag d)) \<Longrightarrow> \<not> (\<not> force ops \<and> ETag d = Some etag) \<Longrightarrow>
   head_callback env ops etag file s (HeadOk d) =
     (let s1 = s\<lparr>s3_state := Some (if truthy_str (ETag d) then ''update'' else ''create'')\<rparr>;
          ps = toAwsParams env file s1
      in (case putObject env ps of
            Some e' \<Rightarrow> Fail (AwsFailure e')
          | None \<Rightarrow> Push (file\<lparr>s3 := Some (s1\<lparr>s3_date := Some (Date (now env)),
                                                 s3_etag := Some etag\<rparr>)\<rparr>),
          [PutObject ps]))"
  by (auto simp add: head_callback_def Let_def)

lemma head_callback_pushed:
  assumes "head_callback env ops etag file s r = (Push file1, calls)"
  shows "\<exists>s1. s3 file1 = Some s1 \<and> s3_path s1 = s3_path s \<and> s3_headers s1 = s3_headers s \<and>
              s3_state s1 \<in> {Some ''skip'', Some ''create'', Some ''update''} \<and>
              s3_etag s1 = Some etag \<and> s3_date s1 \<noteq> None"
  using assms
  by (auto simp: head_callback_def Let_def split: head_response.splits option.splits if_splits)

lemma head_callback_outcomes:
  "(\<exists>file1. fst (head_callback env ops etag file s r) = Push file1) \<or>
   (\<exists>e. r = HeadErr e \<and> \<not> ignored_status e \<and>
        head_callback env ops etag file s r = (Fail (AwsFailure e), [])) \<or>
   (\<exists>ps e. putObject env ps = Some e \<and>
        head_callback env ops etag file s r = (Fail (AwsFailure e), [PutObject ps]))"
  by (auto simp: head_callback_def Let_def split: head_response.splits option.splits if_splits)

lemma publish_file_calls_cases:
  "snd (publish_file env c h ops file) = [] \<or>
   (\<exists>buf. contents file = Buffer buf \<and>
      snd (publish_file env c h ops file)
        = HeadObject (s3_path (initFile_s3 file)) #
          snd (head_callback env ops (fingerprint env buf)
               (fst (publish_headers env h ops buf (initFile file, initFile_s3 file)))
               (snd (publish_headers env h ops buf (initFile file, initFile_s3 file)))
               (headObject env (s3_path (initFile_s3 file)))))"
  by (cases "contents file") (auto simp add: publish_file_def Let_def publish_headers_keeps)

lemma publish_file_outcomes:
  assumes "contents file = Buffer buf"
  shows "(\<exists>file1. fst (publish_file env c h ops file) = Push file1)
     \<or> (\<exists>e. headObject env (s3_path (initFile_s3 file)) = HeadErr e \<and>
             statusCode e \<noteq> Some 403 \<and> statusCode e \<noteq> Some 404 \<and>
             publish_file env c h ops file
               = (Fail (AwsFailure e), [HeadObject (s3_path (initFile_s3 file))]))
     \<or> (\<exists>ps e. putObject env ps = Some e \<and>
             publish_file env c h ops file
               = (Fail (AwsFailure e), [HeadObject (s3_path (initFile_s3 file)), PutObject ps]))"
proof (cases "s3_state (initFile_s3 file) = Some ''delete''")
  case True
  with assms show ?thesis by (simp add: publish_file_delete)
next
  case nd: False
  show ?thesis
  proof (cases "\<not> force ops \<and> c (s3_path (initFile_s3 file)) = Some (fingerprint env buf)")
    case True
    with assms nd show ?thesis by (simp add: publish_file_cache)
  next
    case nc: False
    show ?thesis
    proof (cases "simulate ops")
      case True
      with assms nd nc show ?thesis
        using publish_file_simulate[of "file" buf ops c env h] by auto
    next
      case False
      let ?hc = "head_callback env ops (fingerprint env buf)
               (fst (publish_headers env h ops buf (initFile file, initFile_s3 file)))
               (snd (publish_headers env h ops buf (initFile file, initFile_s3 file)))
               (headObject env (s3_path (initFile_s3 file)))"
      from assms nd nc False have
        pf: "publish_file env c h ops file = (fst ?hc, HeadObject (s3_path (initFile_s3 file)) # snd ?hc)"
        using publish_file_remote[of "file" buf ops c env h] by auto
      from head_callback_outcomes[of env ops "fingerprint env buf"
             "fst (publish_headers env h ops buf (initFile file, initFile_s3 file))"
             "snd (publish_headers env h ops buf (initFile file, initFile_s3 file))"
             "headObject env (s3_path (initFile_s3 file))"]
      show ?thesis
        unfolding pf by (auto simp: ignored_status_def)
    qed
  qed
qed

lemma publish_file_pushed_after_calls:
  assumes "contents file = Buffer buf"
    and "publish_file env c h ops file = (Push file1, calls)"
    and "calls \<noteq> []"
  shows "\<exists>s1. s3 file1 = Some s1 \<and> s3_path s1 = s3_path (initFile_s3 file) \<and>
              s3_state s1 \<in> {Some ''skip'', Some ''create'', Some ''update''} \<and>
              s3_etag s1 = Some (fingerprint env buf) \<and> s3_date s1 \<noteq> None \<and>
              s3_headers s1
                = s3_headers (snd (publish_headers env h ops buf (initFile file, initFile_s3 file)))"
proof -
  let ?fs = "publish_headers env h ops buf (initFile file, initFile_s3 file)"
  let ?hc = "head_callback env ops (fingerprint env buf) (fst ?fs) (snd ?fs)
               (headObject env (s3_path (initFile_s3 file)))"
  from assms have "?hc = (Push file1, tl calls)"
    by (auto simp: publish_file_def Let_def publish_headers_keeps prod_eq_iff split: if_splits)
  from head_callback_pushed[OF this] show ?thesis
    by (auto simp: publish_headers_keeps)
qed

lemma publish_file_pushed_without_calls:
  assumes "contents file = Buffer buf"
    and "publish_file env c h ops file = (Push file1, [])"
  shows "\<exists>s1. s3 file1 = Some s1 \<and> s3_etag s1 = s3_etag (initFile_s3 file) \<and>
              s3_date s1 = s3_date (initFile_s3 file)"
  using assms
  by (auto simp: publish_file_def Let_def publish_headers_keeps initFile_def split: if_splits)

lemma ex_publish_create:
  "publish_file ex_env Map.empty ex_headers ex_options ex_file
     = (Push ex_created, [HeadObject ''a.txt'', PutObject ex_params])"
  by (simp add: ex_publish_defs ex_values)

section \<open>Steps of the cache stream\<close>

lemma cs_cache_saveCache [simp]: "cs_cache (saveCache st) = cs_cache st"
  by (simp add: saveCache_def)



section \<open>The cache hit\<close>




section \<open>What publish pushes downstream\<close>

text \<open>
  C3, as the code has it. A file without contents is skipped without any processing
  and is dropped: \<open>cb()\<close> pushes nothing downstream and no remote call is made. A
  file with a Stream raises the error event and is dropped too. Every file is pushed at
  most once. A file with a Buffer is pushed exactly once, unless \<open>headObject\<close> fails
  with an error other than 403 and 404 or \<open>putObject\<close> fails: then the failure is
  passed on and the file is not pushed. A file pushed after remote calls carries its
  final state (\<open>skip\<close>, \<open>create\<close> or \<open>update\<close>), its fingerprint, a date and the
  headers computed for it. A file pushed without remote call (a cache hit, a file
  marked \<open>delete\<close>, a simulated run) gets no fingerprint and no date from publish.
\<close>

theorem publish_emits_at_most_once:
  "(contents file = Null \<longrightarrow> publish_file env c h ops file = (Done, []))
   \<and> (contents file = Stream \<longrightarrow>
        publish_file env c h ops file
          = (EmitErrorDone (PluginError ''Stream content is not supported''), []))
   \<and> length (pushed (fst (publish_file env c h ops file))) \<le> 1
   \<and> (contents file = Buffer buf \<longrightarrow>
        (\<exists>file1. fst (publish_file env c h ops file) = Push file1)
      \<or> (\<exists>e. headObject env (s3_path (initFile_s3 file)) = HeadErr e \<and>
              statusCode e \<noteq> Some 403 \<and> statusCode e \<noteq> Some 404 \<and>
              publish_file env c h ops file
                = (Fail (AwsFailure e), [HeadObject (s3_path (initFile_s3 file))]))
      \<or> (\<exists>ps e. putObject env ps = Some e \<and>
              publish_file env c h ops file
                = (Fail (AwsFailure e),
                   [HeadObject (s3_path (initFile_s3 file)), PutObject ps])))
   \<and> (contents file = Buffer buf \<and> publish_file env c h ops file = (Push file1, calls) \<and>
      calls \<noteq> [] \<longrightarrow>
        (\<exists>s1. s3 file1 = Some s1 \<and>
              s3_state s1 \<in> {Some ''skip'', Some ''create'', Some ''update''} \<and>
              s3_etag s1 = Some (fingerprint env buf) \<and> s3_date s1 \<noteq> None \<and>
              s3_headers s1
                = s3_headers (snd (publish_headers env h ops buf (initFile file, initFile_s3 file)))))
   \<and> (contents file = Buffer buf \<and> publish_file env c h ops file = (Push file1, []) \<longrightarrow>
        (\<exists>s1. s3 file1 = Some s1 \<and> s3_etag s1 = s3_etag (initFile_s3 file) \<and>
              s3_date s1 = s3_date (initFile_s3 file)))"
proof (intro conjI impI)
  show "length (pushed (fst (publish_file env c h ops file))) \<le> 1"
    by (cases "fst (publish_file env c h ops file)") simp_all
next
  assume "contents file = Buffer buf"
  from publish_file_outcomes[OF this]
  show "(\<exists>file1. fst (publish_file env c h ops file) = Push file1)
      \<or> (\<exists>e. headObject env (s3_path (initFile_s3 file)) = HeadErr e \<and>
              statusCode e \<noteq> Some 403 \<and> statusCode e \<noteq> Some 404 \<and>
              publish_file env c h ops file
                = (Fail (AwsFailure e), [HeadObject (s3_path (initFile_s3 file))]))
      \<or> (\<exists>ps e. putObject env ps = Some e \<and>
              publish_file env c h ops file
                = (Fail (AwsFailure e),
                   [HeadObject (s3_path (initFile_s3 file)), PutObject ps]))" .
qed (auto simp: publish_file_Null publish_file_Stream
       dest: publish_file_pushed_after_calls publish_file_pushed_without_calls)

text \<open>
  A file without contents, a file with a Stream, a new file that is created, and a
  cache hit.
\<close>

theorem publish_emits_at_most_once_witness:
  "publish_file ex_env Map.empty ex_headers ex_options ex_null = (Done, [])
   \<and> publish_file ex_env Map.empty ex_headers ex_options ex_stream
       = (EmitErrorDone (PluginError ''Stream content is not supported''), [])
   \<and> publish_file ex_env Map.empty ex_headers ex_options ex_file
       = (Push ex_created, [HeadObject ''a.txt'', PutObject ex_params])
   \<and> map_option s3_state (s3 ex_created) = Some (Some ''create'')
   \<and> map_option s3_etag (s3 ex_created) = Some (Some (fingerprint ex_env ''hi''))
   \<and> map_option s3_date (s3 ex_created) = Some (Some (Date 7))
   \<and> publish_file ex_env [''a.txt'' \<mapsto> fingerprint ex_env ''hi''] ex_headers ex_options ex_file
       = (Push ex_cache_hit, [])
   \<and> map_option s3_etag (s3 ex_cache_hit) = Some None
   \<and> map_option s3_date (s3 ex_cache_hit) = Some None"
proof -
  have n: "contents ex_null = Null" and s: "contents ex_stream = Stream"
    and b: "contents ex_file = Buffer ''hi''"
    by (simp_all add: ex_null_def ex_stream_def ex_file_def)
  have hit: "publish_file ex_env [''a.txt'' \<mapsto> fingerprint ex_env ''hi''] ex_headers ex_options ex_file
       = (Push ex_cache_hit, [])"
    by (simp add: ex_publish_defs ex_values)
  from publish_emits_at_most_once[of ex_null ex_env Map.empty ex_headers ex_options]
       publish_emits_at_most_once[of ex_stream ex_env Map.empty ex_headers ex_options]
       publish_emits_at_most_once[of ex_file ex_env Map.empty ex_headers ex_options "''hi''"
         ex_created "[HeadObject ''a.txt'', PutObject ex_params]"]
       publish_emits_at_most_once[of ex_file ex_env "[''a.txt'' \<mapsto> fingerprint ex_env ''hi'']"
         ex_headers ex_options "''hi''" ex_cache_hit "[]"]
       n s b ex_publish_create hit
  show ?thesis
    by (simp add: ex_created_def ex_cache_hit_def initFile_s3_def ex_file_def)
qed

text \<open>
  A file whose contents are null: \<open>publish\<close> calls \<open>cb()\<close> at line 310, and nothing
  is pushed downstream, where the claim has the file pushed unchanged.
\<close>

theorem null_file_is_dropped:
  "contents ex_null = Null
   \<and> publish_file ex_env Map.empty ex_headers ex_options ex_null = (Done, [])
   \<and> pushed (fst (publish_file ex_env Map.empty ex_headers ex_options ex_null)) = []
   \<and> pushed (fst (publish_file ex_env Map.empty ex_headers ex_options ex_null)) \<noteq> [ex_null]"
  by (simp add: ex_null_def publish_file_def)

section \<open>Errors of the metadata query\<close>

text \<open>
  C6. The file has a Buffer, is not marked \<open>delete\<close>, is not a cache hit, and the
  run does not simulate, so that \<open>headObject\<close> is called. When it answers with an
  error whose status code is 403 or 404, the object is taken as absent: the state
  becomes \<open>create\<close> and \<open>putObject\<close> is called, whose result decides between the
  file pushed with its fingerprint and date, and the failure. When it answers with any
  other error, also one without status code, the file fails with that error and the
  only call made is \<open>headObject\<close>: nothing is written.
\<close>

theorem head_error_absent_or_abort:
  "contents file = Buffer buf \<and> s3_state (initFile_s3 file) \<noteq> Some ''delete'' \<and>
   (force ops \<or> c (s3_path (initFile_s3 file)) \<noteq> Some (fingerprint env buf)) \<and>
   \<not> simulate ops \<and>
   headObject env (s3_path (initFile_s3 file)) = HeadErr e \<longrightarrow>
     ((statusCode e = Some 403 \<or> statusCode e = Some 404) \<longrightarrow>
        publish_file env c h ops file =
          (let fs = publish_headers env h ops buf (initFile file, initFile_s3 file);
               s1 = (snd fs)\<lparr>s3_state := Some ''create''\<rparr>;
               ps = toAwsParams env (fst fs) s1
           in (case putObject env ps of
                 Some e' \<Rightarrow> Fail (AwsFailure e')
               | None \<Rightarrow> Push ((fst fs)\<lparr>s3 := Some (s1\<lparr>s3_date := Some (Date (now env)),
                                                        s3_etag := Some (fingerprint env buf)\<rparr>)\<rparr>),
               [HeadObject (s3_path (initFile_s3 file)), PutObject ps])))
   \<and> (statusCode e \<noteq> Some 403 \<and> statusCode e \<noteq> Some 404 \<longrightarrow>
        publish_file env c h ops file
          = (Fail (AwsFailure e), [HeadObject (s3_path (initFile_s3 file))]))"
  by (auto simp add: publish_file_remote head_callback_abort head_callback_ignored
      ignored_status_def Let_def)

text \<open>A new file with the answers 403 and 500.\<close>

theorem head_error_absent_or_abort_witness:
  "publish_file (ex_env\<lparr>headObject := \<lambda>k. HeadErr (AwsError (Some 403))\<rparr>) Map.empty
       ex_headers ex_options ex_file
     = (Push ex_created, [HeadObject ''a.txt'', PutObject ex_params])
   \<and> publish_file (ex_env\<lparr>headObject := \<lambda>k. HeadErr (AwsError (Some 500))\<rparr>) Map.empty
       ex_headers ex_options ex_file
     = (Fail (AwsFailure (AwsError (Some 500))), [HeadObject ''a.txt''])"
proof -
  let ?env403 = "ex_env\<lparr>headObject := \<lambda>k. HeadErr (AwsError (Some 403))\<rparr>"
  let ?env500 = "ex_env\<lparr>headObject := \<lambda>k. HeadErr (AwsError (Some 500))\<rparr>"
  have pre: "contents ex_file = Buffer ''hi'' \<and> s3_state (initFile_s3 ex_file) \<noteq> Some ''delete'' \<and>
      \<not> simulate ex_options \<and> s3_path (initFile_s3 ex_file) = ''a.txt''"
    by (simp add: ex_file_def ex_options_def initFile_s3_def)
  have v: "(let fs = publish_headers ?env403 ex_headers ex_options ''hi''
                       (initFile ex_file, initFile_s3 ex_file);
               s1 = (snd fs)\<lparr>s3_state := Some ''create''\<rparr>;
               ps = toAwsParams ?env403 (fst fs) s1
           in (case putObject ?env403 ps of
                 Some e' \<Rightarrow> Fail (AwsFailure e')
               | None \<Rightarrow> Push ((fst fs)\<lparr>s3 := Some (s1\<lparr>s3_date := Some (Date (now ?env403)),
                                                        s3_etag := Some (fingerprint ?env403 ''hi'')\<rparr>)\<rparr>),
               [HeadObject (s3_path (initFile_s3 ex_file)), PutObject ps]))
           = (Push ex_created, [HeadObject ''a.txt'', PutObject ex_params])"
    by (simp add: ex_publish_defs ex_values)
  from head_error_absent_or_abort[of ex_file "''hi''" ex_options Map.empty ?env403
         "AwsError (Some 403)" ex_headers]
       head_error_absent_or_abort[of ex_file "''hi''" ex_options Map.empty ?env500
         "AwsError (Some 500)" ex_headers]
       pre v
  show ?thesis by (simp add: ex_env_def)
qed

section \<open>Create-only mode\<close>

text \<open>
  C8. In create-only mode, when \<open>headObject\<close> answers that the object exists (its
  \<open>ETag\<close> is set), no \<open>putObject\<close> call is made for the file, whatever the file and
  the other options; and a file that reaches the remote query is pushed in state
  \<open>skip\<close>, with its fingerprint and the date of the remote object, whether or not the
  remote \<open>ETag\<close> equals the fingerprint.
\<close>

theorem create_only_skips_existing:
  "createOnly ops \<and> headObject env (s3_path (initFile_s3 file)) = HeadOk d \<and>
   truthy_str (ETag d) \<longrightarrow>
     (\<forall>ps. PutObject ps \<notin> set (snd (publish_file env c h ops file)))
   \<and> (contents file = Buffer buf \<and> s3_state (initFile_s3 file) \<noteq> Some ''delete'' \<and>
      (force ops \<or> c (s3_path (initFile_s3 file)) \<noteq> Some (fingerprint env buf)) \<and>
      \<not> simulate ops \<longrightarrow>
        publish_file env c h ops file =
          (let fs = publish_headers env h ops buf (initFile file, initFile_s3 file)
           in (Push ((fst fs)\<lparr>s3 := Some ((snd fs)\<lparr>s3_state := Some ''skip'',
                                                   s3_etag := Some (fingerprint env buf),
                                                   s3_date := Some (new_Date (LastModified d))\<rparr>)\<rparr>),
               [HeadObject (s3_path (initFile_s3 file))])))"
proof (intro impI conjI allI)
  fix ps
  assume a: "createOnly ops \<and> headObject env (s3_path (initFile_s3 file)) = HeadOk d \<and>
   truthy_str (ETag d)"
  from publish_file_calls_cases[of env c h ops "file"] a
  show "PutObject ps \<notin> set (snd (publish_file env c h ops file))"
    by (auto simp: head_callback_skip)
next
  assume a: "createOnly ops \<and> headObject env (s3_path (initFile_s3 file)) = HeadOk d \<and>
   truthy_str (ETag d)"
    and b: "contents file = Buffer buf \<and> s3_state (initFile_s3 file) \<noteq> Some ''delete'' \<and>
      (force ops \<or> c (s3_path (initFile_s3 file)) \<noteq> Some (fingerprint env buf)) \<and>
      \<not> simulate ops"
  then show "publish_file env c h ops file =
          (let fs = publish_headers env h ops buf (initFile file, initFile_s3 file)
           in (Push ((fst fs)\<lparr>s3 := Some ((snd fs)\<lparr>s3_state := Some ''skip'',
                                                   s3_etag := Some (fingerprint env buf),
                                                   s3_date := Some (new_Date (LastModified d))\<rparr>)\<rparr>),
               [HeadObject (s3_path (initFile_s3 file))]))"
    by (simp add: publish_file_remote head_callback_skip Let_def)
qed

text \<open>The remote object has another \<open>ETag\<close> than the fingerprint of the file.\<close>

theorem create_only_skips_existing_witness:
  "publish_file
      (ex_env\<lparr>headObject := \<lambda>k. HeadOk \<lparr>ETag = Some ''other'', LastModified = Some 3\<rparr>\<rparr>)
      Map.empty ex_headers (ex_options\<lparr>createOnly := True\<rparr>) ex_file
     = (Push ex_skipped, [HeadObject ''a.txt''])
   \<and> ''other'' \<noteq> fingerprint ex_env ''hi''"
proof -
  let ?env = "ex_env\<lparr>headObject := \<lambda>k. HeadOk \<lparr>ETag = Some ''other'', LastModified = Some 3\<rparr>\<rparr>"
  let ?ops = "ex_options\<lparr>createOnly := True\<rparr>"
  have pre: "createOnly ?ops \<and>
      headObject ?env (s3_path (initFile_s3 ex_file)) = HeadOk \<lparr>ETag = Some ''other'', LastModified = Some 3\<rparr> \<and>
      truthy_str (ETag \<lparr>ETag = Some ''other'', LastModified = Some 3\<rparr>)"
    by simp
  have pre2: "contents ex_file = Buffer ''hi'' \<and> s3_state (initFile_s3 ex_file) \<noteq> Some ''delete'' \<and>
      (force ?ops \<or> Map.empty (s3_path (initFile_s3 ex_file)) \<noteq> Some (fingerprint ?env ''hi'')) \<and>
      \<not> simulate ?ops"
    by (simp add: ex_file_def ex_options_def initFile_s3_def)
  have v: "(let fs = publish_headers ?env ex_headers ?ops ''hi'' (initFile ex_file, initFile_s3 ex_file)
           in (Push ((fst fs)\<lparr>s3 := Some ((snd fs)\<lparr>s3_state := Some ''skip'',
                                                   s3_etag := Some (fingerprint ?env ''hi''),
                                                   s3_date := Some (new_Date (LastModified \<lparr>ETag = Some ''other'', LastModified = Some 3\<rparr>))\<rparr>)\<rparr>),
               [HeadObject (s3_path (initFile_s3 ex_file))]))
          = (Push ex_skipped, [HeadObject ''a.txt''])"
    by (simp add: ex_publish_defs ex_values ex_skipped_def)
  from create_only_skips_existing[of ?ops ?env ex_file
         "\<lparr>ETag = Some ''other'', LastModified = Some 3\<rparr>" Map.empty ex_headers "''hi''"]
       pre pre2 v
  show ?thesis by (simp add: fingerprint_def)
qed

section \<open>The entries of the cache\<close>




section \<open>The writes of the cache file\<close>

text \<open>
  A file that carries a key and is not a cache hit increments the counter, and the
  cache file is written when the new counter is not a multiple of 10.
\<close>

lemma cache_transform_writes:
  assumes "cache_relevant file"
  shows "counter (fst (cache_transform st file)) = Suc (counter st)"
    and "writes (fst (cache_transform st file)) =
           (if Suc (counter st) mod 10 \<noteq> 0
            then writes st @ [cs_cache (fst (cache_transform st file))]
            else writes st)"
  using assms
  by (auto simp add: cache_relevant_def cache_transform_def Let_def saveCache_def
      split: option.splits)

lemma cache_transform_no_writes:
  assumes "\<not> cache_relevant file"
  shows "fst (cache_transform st file) = st"
  using assms by (auto simp: cache_relevant_def cache_transform_def split: option.splits)

lemma cache_stream_writes_last:
  "writes (cache_stream st files) = writes (cache_files st files) @ [cs_cache (cache_files st files)]"
  by (simp add: cache_stream_def saveCache_def)

text \<open>
  Over such files, the writes made while the stream runs number the files minus the
  multiples of 10 that the counter reached.
\<close>

lemma cache_files_count:
  assumes "\<forall>f\<in>set files. cache_relevant f"
  shows "counter (cache_files st files) = counter st + length files
       \<and> length (writes (cache_files st files)) + (counter st + length files) div 10
           = length (writes st) + length files + counter st div 10"
  using assms
proof (induction files arbitrary: st)
  case Nil
  then show ?case by (simp add: cache_files_def)
next
  case (Cons f fs)
  let ?st1 = "fst (cache_transform st f)"
  from Cons.prems have r: "cache_relevant f" and rs: "\<forall>f\<in>set fs. cache_relevant f" by auto
  have unf: "cache_files st (f # fs) = cache_files ?st1 fs" by (simp add: cache_files_def)
  have c1: "counter ?st1 = Suc (counter st)" by (rule cache_transform_writes(1)[OF r])
  have w1: "length (writes ?st1) + Suc (counter st) div 10
              = Suc (length (writes st)) + counter st div 10"
    using cache_transform_writes(2)[OF r, of st] by (simp add: div_Suc)
  from Cons.IH[OF rs, of ?st1] c1 w1 show ?case
    unfolding unf by simp
qed

text \<open>
  C4 at streams of created files, from a counter of 0. The cache file is written
  right after the first file, and after each of the first nine; the tenth file
  triggers no write; with the write of the \<open>finish\<close> event a stream of ten files
  writes the cache file ten times. The claim has one write after the tenth file and
  one at the end.
\<close>

theorem cache_saved_on_all_but_every_tenth_file:
  "length (writes (cache_files ex_state [ex_created])) = 1
   \<and> length (writes (cache_files ex_state (replicate 9 ex_created))) = 9
   \<and> length (writes (cache_files ex_state (replicate 10 ex_created))) = 9
   \<and> length (writes (cache_stream ex_state (replicate 10 ex_created))) = 10"
proof -
  have r: "cache_relevant ex_created"
    by (simp add: cache_relevant_def ex_created_def ex_s3_def)
  have e: "counter ex_state = 0" "writes ex_state = []" by (simp_all add: ex_state_def)
  from cache_files_count[of "[ex_created]" ex_state]
       cache_files_count[of "replicate 9 ex_created" ex_state]
       cache_files_count[of "replicate 10 ex_created" ex_state] r e
  show ?thesis by (simp add: cache_stream_writes_last)
qed

section \<open>Loading the cache\<close>



section \<open>The delete set of sync\<close>

lemma fileShouldBeDeleted_True:
  "fileShouldBeDeleted key wl = Inr True \<Longrightarrow> \<not> whitelisted wl key"
  by (induction key wl rule: fileShouldBeDeleted.induct)
     (auto simp: whitelisted_def wl_matches_def split: if_splits)

lemma fileShouldBeDeleted_False:
  "fileShouldBeDeleted key wl = Inr False \<Longrightarrow> whitelisted wl key"
  by (induction key wl rule: fileShouldBeDeleted.induct)
     (auto simp: whitelisted_def wl_matches_def split: if_splits)



text \<open>Whenever the handler produces a list, it is that filter of the listing.\<close>

lemma lister_data_sound:
  "lister_data nf wl keys = Inr del \<Longrightarrow>
   del = filter (\<lambda>k. \<not> js_truthy_member nf k \<and> \<not> whitelisted wl k) keys"
proof (induction keys arbitrary: del)
  case Nil
  then show ?case by simp
next
  case (Cons k ks)
  show ?case
  proof (cases "js_truthy_member nf k")
    case True
    with Cons show ?thesis by simp
  next
    case False
    show ?thesis
    proof (cases "fileShouldBeDeleted k wl")
      case (Inl e)
      with Cons.prems False show ?thesis by simp
    next
      case (Inr b)
      show ?thesis
      proof (cases b)
        case True
        with Inr have m: "\<not> whitelisted wl k" by (simp add: fileShouldBeDeleted_True)
        from Cons.prems False Inr True obtain d where
          d: "lister_data nf wl ks = Inr d" "del = k # d"
          by (auto split: sum.splits)
        with Cons.IH[OF d(1)] False m show ?thesis by simp
      next
        case bF: False
        with Inr have m: "whitelisted wl k" by (simp add: fileShouldBeDeleted_False)
        from Cons.prems False Inr bF have "lister_data nf wl ks = Inr del" by simp
        with Cons.IH m show ?thesis by simp
      qed
    qed
  qed
qed

lemma sync_flush_toDelete:
  assumes "sync_flush env nf prefix wl = Inr r"
  shows "toDelete r =
           filter (\<lambda>k. \<not> js_truthy_member nf k
                        \<and> \<not> whitelisted (case wl of None \<Rightarrow> [] | Some w \<Rightarrow> w) k)
             (listObjects env (or_str prefix []))"
  using assms
  by (auto simp: sync_flush_def Let_def split: sum.splits dest: lister_data_sound)

lemma sync_flush_calls:
  assumes "sync_flush env nf prefix wl = Inr r"
  shows "fl_calls r = ListObjects (or_str prefix []) # fst (lister_end env (toDelete r))"
    and "fl_cb r = snd (lister_end env (toDelete r))"
    and "fl_pushed r = map deleteFile (toDelete r)"
  using assms
  by (auto simp: sync_flush_def Let_def split: sum.splits)

text \<open>
  What \<open>newFiles\<close> answers after the files of a run: a key is found when a file
  carried it, or when it names a member every object inherits.
\<close>

lemma js_truthy_member_assign:
  "js_truthy_member (js_assign nf key ()) k \<longleftrightarrow> js_truthy_member nf k \<or> k = key"
  by (auto simp: js_truthy_member_def js_assign_def object_prototype_names_def)

lemma sync_files_member:
  "sync_files nf files = Inr nf' \<Longrightarrow>
   js_truthy_member nf' k \<longleftrightarrow>
     js_truthy_member nf k \<or> (\<exists>f\<in>set files. \<exists>s. s3 f = Some s \<and> s3_path s = k)"
proof (induction files arbitrary: nf)
  case Nil
  then show ?case by simp
next
  case (Cons f fs)
  from Cons.prems obtain s where s: "s3 f = Some s"
    by (auto simp: sync_transform_def split: option.splits)
  with Cons.prems have "sync_files (js_assign nf (s3_path s) ()) fs = Inr nf'"
    by (simp add: sync_transform_def)
  from Cons.IH[OF this] s show ?case
    by (auto simp: js_truthy_member_assign)
qed

text \<open>
  The delete set of a whole run that ends without an exception: the keys of the
  listing, in its order, that no file of the run carried, that name no inherited
  member of \<open>newFiles\<close>, and that the whitelist does not match.
\<close>

lemma sync_delete_set:
  assumes "sync env prefix wl files = Inr r"
  shows "toDelete r =
           filter (\<lambda>k. \<not> (\<exists>f\<in>set files. \<exists>s. s3 f = Some s \<and> s3_path s = k)
                        \<and> k \<notin> set object_prototype_names
                        \<and> \<not> whitelisted (case wl of None \<Rightarrow> [] | Some w \<Rightarrow> w) k)
             (listObjects env (or_str prefix []))"
proof -
  from assms obtain nf where nf: "sync_files Map.empty files = Inr nf"
    and fl: "sync_flush env nf prefix wl = Inr r"
    by (auto simp: sync_def split: sum.splits)
  have "\<And>k. js_truthy_member nf k \<longleftrightarrow>
          (\<exists>f\<in>set files. \<exists>s. s3 f = Some s \<and> s3_path s = k) \<or> k \<in> set object_prototype_names"
    using sync_files_member[OF nf] by (auto simp: js_truthy_member_def)
  with sync_flush_toDelete[OF fl] show ?thesis by simp
qed

text \<open>
  A whitelisted key is in no delete set, published or not.
\<close>

lemma whitelisted_never_deleted:
  assumes "sync env prefix wl files = Inr r"
    and "whitelisted (case wl of None \<Rightarrow> [] | Some w \<Rightarrow> w) k"
  shows "k \<notin> set (toDelete r)"
  using sync_delete_set[OF assms(1)] assms(2) by simp

text \<open>
  C2 at a listing that holds the key \<open>constructor\<close>. Nothing was published and the
  whitelist is empty, so the claim puts both keys of the listing in the delete set.
  The code leaves \<open>constructor\<close> out: \<open>newFiles['constructor']\<close> is the inherited
  \<open>Object\<close> function, which is truthy, and the handler returns as for a published
  key.
\<close>

theorem sync_spares_inherited_names:
  "sync (ex_env\<lparr>listObjects := \<lambda>p. [''constructor'', ''old.txt'']\<rparr>) None None []
     = Inr \<lparr>fl_pushed = [deleteFile ''old.txt''], toDelete = [''old.txt''],
            fl_calls = [ListObjects [],
                        DeleteObjects (Some \<lparr>Delete = \<lparr>Objects = [key_object ''old.txt'']\<rparr>\<rparr>)],
            fl_cb = None\<rparr>
   \<and> \<not> whitelisted [] ''constructor''"
  by (simp add: sync_def ex_sync_defs whitelisted_def)

section \<open>The delete calls of sync\<close>






text \<open>
  C10. \<open>buildDeleteMultiple\<close> returns nothing for an absent and for an empty list of
  keys, and a flush whose delete set is empty makes the listing call only: no
  \<open>deleteObjects\<close> call is issued, no deletion is pushed, and the flush completes
  with \<open>cb()\<close>.
\<close>

theorem no_delete_call_when_empty:
  "buildDeleteMultiple None = None \<and> buildDeleteMultiple (Some []) = None \<and>
   (sync_flush env nf prefix wl = Inr r \<and> toDelete r = [] \<longrightarrow>
      fl_calls r = [ListObjects (or_str prefix [])] \<and> fl_cb r = None \<and> fl_pushed r = [])"
  by (auto simp: buildDeleteMultiple_def sync_flush_calls lister_end_def)

text \<open>
  The listing is a, b, c; a and b were published and c is whitelisted.
\<close>

theorem no_delete_call_when_empty_witness:
  "sync_flush (ex_env\<lparr>listObjects := \<lambda>p. [''a'', ''b'', ''c'']\<rparr>)
      [''a'' \<mapsto> (), ''b'' \<mapsto> ()] None (Some [WString ''c''])
     = Inr \<lparr>fl_pushed = [], toDelete = [], fl_calls = [ListObjects []], fl_cb = None\<rparr>
   \<and> buildDeleteMultiple (Some []) = None"
proof -
  let ?r = "\<lparr>fl_pushed = [], toDelete = [], fl_calls = [ListObjects []], fl_cb = None\<rparr>"
  have run: "sync_flush (ex_env\<lparr>listObjects := \<lambda>p. [''a'', ''b'', ''c'']\<rparr>)
      [''a'' \<mapsto> (), ''b'' \<mapsto> ()] None (Some [WString ''c'']) = Inr ?r"
    by (simp add: ex_sync_defs)
  from no_delete_call_when_empty
         [of "ex_env\<lparr>listObjects := \<lambda>p. [''a'', ''b'', ''c'']\<rparr>"
             "[''a'' \<mapsto> (), ''b'' \<mapsto> ()]" None "Some [WString ''c'']" ?r]
       run
  show ?thesis by simp
qed

end
